theory Spec2Isabelle
  imports Complex_Main "HOL-Library.Sublist"
begin

section \<open>EmbeddingService.create_embedding\<close>

text \<open>
  A shallow embedding of \<^verbatim>\<open>app/service/embedding/embedding_service.py\<close>.

  Python \<^verbatim>\<open>str\<close> values are modelled as HOL strings: a list of characters whose
  length is the number of characters, as \<^verbatim>\<open>len\<close> and slicing count them. HOL characters
  are the code points below 256; among those the regular expression class \<^verbatim>\<open>\d\<close> matches
  exactly the ten ASCII digits. Texts with a character beyond code point 255 are outside
  the model, and what is proved about texts is proved for texts without one.
\<close>

subsection \<open>Data\<close>

text \<open>\<^verbatim>\<open>input_text: Union[str, List[str]]\<close>.\<close>

datatype input_text = Str string | StrList "string list"

text \<open>
  The value stored under the key \<^verbatim>\<open>"input_truncated"\<close> of \<^verbatim>\<open>request_msg_log\<close>: a string
  or a list of strings. The dictionary itself is an association list.
\<close>

datatype preview = PStr string | PList "string list"

type_synonym request_msg = "(string \<times> preview) list"

text \<open>
  What the remote call can raise. \<^verbatim>\<open>APIStatusError\<close> carries \<^verbatim>\<open>status_code\<close> and its
  message; the openai library hands the message to \<^verbatim>\<open>Exception.__init__\<close>, so the text of
  the exception, \<^verbatim>\<open>str(e)\<close>, is that message. \<open>OtherException\<close> is any other instance of
  \<^verbatim>\<open>Exception\<close>, with the name of its class and its text (the \<^verbatim>\<open>ValueError\<close> that \<^verbatim>\<open>int\<close>
  raises is one). \<open>NonException\<close> is an instance of \<^verbatim>\<open>BaseException\<close> that is not an
  \<^verbatim>\<open>Exception\<close> (\<^verbatim>\<open>KeyboardInterrupt\<close>, \<^verbatim>\<open>CancelledError\<close>, ...), with its text.
\<close>

datatype exn =
  APIStatusError int string
| OtherException string string
| NonException string

fun str :: "exn \<Rightarrow> string" where
  "str (APIStatusError sc msg) = msg"
| "str (OtherException cls txt) = txt"
| "str (NonException txt) = txt"

text \<open>The keyword arguments of \<^verbatim>\<open>add_error_log\<close> and of \<^verbatim>\<open>add_request_log\<close>.\<close>

record error_log_entry =
  err_gemini_key :: string
  err_model_name :: string
  err_error_type :: string
  err_error_log :: string
  err_error_code :: "int option"
  err_request_msg :: request_msg

record request_log_entry =
  req_model_name :: string
  req_api_key :: string
  req_is_success :: bool
  req_status_code :: "int option"
  req_latency_ms :: int
  req_request_time :: int

text \<open>
  The effects of a call, in the order in which they happen: a line written with
  \<^verbatim>\<open>logger.error\<close>, a call of \<^verbatim>\<open>add_error_log\<close>, a call of \<^verbatim>\<open>add_request_log\<close>. The two
  database functions live outside this file; a call of one of them is recorded with its
  arguments and returns.
\<close>

datatype event =
  LoggerError string
| AddErrorLog error_log_entry
| AddRequestLog request_log_entry

type_synonym trace = "event list"

definition logger_error :: "string \<Rightarrow> trace \<Rightarrow> trace" where
  "logger_error msg tr = tr @ [LoggerError msg]"

definition add_error_log :: "error_log_entry \<Rightarrow> trace \<Rightarrow> trace" where
  "add_error_log e tr = tr @ [AddErrorLog e]"

definition add_request_log :: "request_log_entry \<Rightarrow> trace \<Rightarrow> trace" where
  "add_request_log r tr = tr @ [AddRequestLog r]"

text \<open>
  What the call reads from its surroundings: the two readings of \<^verbatim>\<open>time.perf_counter()\<close>
  (at entry and in the \<^verbatim>\<open>finally\<close> block), \<^verbatim>\<open>datetime.datetime.now()\<close> (as a count of
  microseconds), \<^verbatim>\<open>settings.BASE_URL\<close>, and the remote side: building the client from
  \<^verbatim>\<open>api_key\<close> and \<^verbatim>\<open>base_url\<close> and calling \<^verbatim>\<open>client.embeddings.create(input, model)\<close>, which
  returns a response or raises. Clock readings are floats, that is, rationals; \<open>fl\<close> is
  the rounding of a float operation's exact result.
\<close>

record 'r world =
  perf_counter_start :: rat
  perf_counter_end :: rat
  datetime_now :: int
  BASE_URL :: string
  embeddings_create :: "string \<Rightarrow> string \<Rightarrow> input_text \<Rightarrow> string \<Rightarrow> exn + 'r"
  fl :: "rat \<Rightarrow> rat"

text \<open>The local variables that the \<^verbatim>\<open>finally\<close> block reads.\<close>

record locals =
  is_success :: bool
  status_code :: "int option"
  error_log_msg :: string

subsection \<open>The input preview (lines 30 to 35)\<close>

definition request_msg_log :: "input_text \<Rightarrow> request_msg" where
  "request_msg_log input_text =
     (case input_text of
        StrList items \<Rightarrow>
          [(''input_truncated'',
            PList (map (\<lambda>item. if length item > 100 then take 100 item @ ''...'' else item)
                       (take 5 items)
                   @ (if length items > 5 then [''...''] else [])))]
      | Str s \<Rightarrow>
          [(''input_truncated'',
            PStr (if length s > 1000 then take 1000 s @ ''...'' else s))])"

subsection \<open>The status code of a generic error (lines 55 to 59)\<close>

definition is_digit :: "char \<Rightarrow> bool" where
  "is_digit c = (c \<in> set ''0123456789'')"

text \<open>
  The pattern \<^verbatim>\<open>status code (\d+)\<close> tried at the head of a text: the twelve literal
  characters, then the longest run of digits, which must not be empty. The result is
  group 1.
\<close>

definition match_here :: "string \<Rightarrow> string option" where
  "match_here s =
     (if take 12 s = ''status code '' \<and> takeWhile is_digit (drop 12 s) \<noteq> []
      then Some (takeWhile is_digit (drop 12 s)) else None)"

text \<open>\<^verbatim>\<open>re.search\<close>: the match at the leftmost position that has one.\<close>

fun re_search :: "string \<Rightarrow> string option" where
  "re_search [] = match_here []"
| "re_search (c # cs) =
     (case match_here (c # cs) of Some g \<Rightarrow> Some g | None \<Rightarrow> re_search cs)"

text \<open>The value of a string of decimal digits.\<close>

definition digit_value :: "char \<Rightarrow> int" where
  "digit_value c = int (of_char c) - 48"

definition int_of_digits :: "string \<Rightarrow> int" where
  "int_of_digits ds = foldl (\<lambda>n c. 10 * n + digit_value c) 0 ds"

text \<open>
  \<^verbatim>\<open>int\<close> of a string of decimal digits. The interpreter converts at most
  \<^verbatim>\<open>sys.get_int_max_str_digits()\<close> digits, 4300 unless configured otherwise, and raises
  \<^verbatim>\<open>ValueError\<close> on a longer string; leading zeros count.
\<close>

definition int_max_str_digits :: nat where
  "int_max_str_digits = 4300"

fun decimal :: "nat \<Rightarrow> string" where
  "decimal n =
     (if n < 10 then [char_of (48 + n)] else decimal (n div 10) @ [char_of (48 + n mod 10)])"

definition int_limit_message :: "nat \<Rightarrow> string" where
  "int_limit_message n =
     ''Exceeds the limit ('' @ decimal int_max_str_digits
       @ '' digits) for integer string conversion: value has '' @ decimal n
       @ '' digits; use sys.set_int_max_str_digits() to increase the limit''"

definition int_of_string :: "string \<Rightarrow> exn + int" where
  "int_of_string ds =
     (if length ds > int_max_str_digits
      then Inl (OtherException ''ValueError'' (int_limit_message (length ds)))
      else Inr (int_of_digits ds))"

text \<open>
  Lines 55 to 59: the status code that the handler assigns, or the exception that
  \<^verbatim>\<open>int(match.group(1))\<close> raises.
\<close>

definition parse_status_code :: "string \<Rightarrow> exn + int" where
  "parse_status_code txt =
     (case re_search txt of Some g \<Rightarrow> int_of_string g | None \<Rightarrow> Inr 500)"

text \<open>
  In the words of the specification: a text contains a recognizable status code pattern
  when \<^verbatim>\<open>"status code "\<close> followed by a digit occurs somewhere in it.
\<close>

definition contains_status_pattern :: "string \<Rightarrow> bool" where
  "contains_status_pattern txt =
     (\<exists>d \<in> set ''0123456789''. sublist (''status code '' @ [d]) txt)"

subsection \<open>The \<^verbatim>\<open>try\<close> statement (lines 38 to 82)\<close>

text \<open>
  The body and the handlers: the outcome (the response to return or the exception that
  leaves the handler), the local variables and the trace. In the handler of
  \<^verbatim>\<open>Exception\<close> the status code is assigned before \<^verbatim>\<open>raise e\<close>; when \<^verbatim>\<open>int\<close> raises there,
  its exception leaves the handler in place of \<open>e\<close> and \<^verbatim>\<open>status_code\<close> keeps its initial
  \<^verbatim>\<open>None\<close>.
\<close>

definition try_except ::
  "'r world \<Rightarrow> input_text \<Rightarrow> string \<Rightarrow> string \<Rightarrow> trace \<Rightarrow> (exn + 'r) \<times> locals \<times> trace" where
  "try_except w input_text model api_key tr =
     (case embeddings_create w api_key (BASE_URL w) input_text model of
        Inr response \<Rightarrow>
          (Inr response,
           \<lparr>is_success = True, status_code = Some 200, error_log_msg = ''''\<rparr>, tr)
      | Inl e \<Rightarrow>
          (case e of
             APIStatusError sc msg \<Rightarrow>
               (let error_log_msg = ''OpenAI API error: '' @ str e
                in (Inl e,
                    \<lparr>is_success = False, status_code = Some sc, error_log_msg = error_log_msg\<rparr>,
                    logger_error
                      (''Error creating embedding (APIStatusError): '' @ error_log_msg) tr))
           | OtherException cls txt \<Rightarrow>
               (let error_log_msg = ''Generic error: '' @ str e;
                    tr1 = logger_error
                            (''Error creating embedding (Exception): '' @ error_log_msg) tr
                in case parse_status_code (str e) of
                     Inr sc \<Rightarrow>
                       (Inl e,
                        \<lparr>is_success = False, status_code = Some sc,
                         error_log_msg = error_log_msg\<rparr>, tr1)
                   | Inl raised \<Rightarrow>
                       (Inl raised,
                        \<lparr>is_success = False, status_code = None,
                         error_log_msg = error_log_msg\<rparr>, tr1))
           | NonException txt \<Rightarrow>
               (Inl e, \<lparr>is_success = False, status_code = None, error_log_msg = ''''\<rparr>, tr)))"

text \<open>\<^verbatim>\<open>int(x)\<close> of a float: rounding towards zero.\<close>

definition int_of_float :: "rat \<Rightarrow> int" where
  "int_of_float x = (if 0 \<le> x then \<lfloor>x\<rfloor> else \<lceil>x\<rceil>)"

definition latency_ms :: "'r world \<Rightarrow> int" where
  "latency_ms w =
     int_of_float (fl w (fl w (perf_counter_end w - perf_counter_start w) * 1000))"

text \<open>The \<^verbatim>\<open>finally\<close> block.\<close>

definition finally_block ::
  "'r world \<Rightarrow> string \<Rightarrow> string \<Rightarrow> request_msg \<Rightarrow> locals \<Rightarrow> trace \<Rightarrow> trace" where
  "finally_block w model api_key msg l tr =
     (let tr1 =
            (if \<not> is_success l
             then add_error_log
                    \<lparr>err_gemini_key = api_key, err_model_name = model,
                     err_error_type = ''openai-embedding'', err_error_log = error_log_msg l,
                     err_error_code = status_code l, err_request_msg = msg\<rparr> tr
             else tr)
      in add_request_log
           \<lparr>req_model_name = model, req_api_key = api_key, req_is_success = is_success l,
            req_status_code = status_code l, req_latency_ms = latency_ms w,
            req_request_time = datetime_now w\<rparr> tr1)"

text \<open>
  The whole call: what the caller receives (\<open>Inr\<close> the returned response, \<open>Inl\<close> the
  exception that propagates) and the trace at that moment.
\<close>

definition create_embedding ::
  "'r world \<Rightarrow> input_text \<Rightarrow> string \<Rightarrow> string \<Rightarrow> trace \<Rightarrow> (exn + 'r) \<times> trace" where
  "create_embedding w input_text model api_key tr =
     (let msg = request_msg_log input_text;
          (outcome, l, tr1) = try_except w input_text model api_key tr
      in (outcome, finally_block w model api_key msg l tr1))"

text \<open>The entries that a trace hands to each of the two database functions, in order.\<close>

fun error_entries :: "trace \<Rightarrow> error_log_entry list" where
  "error_entries [] = []"
| "error_entries (AddErrorLog e # tr) = e # error_entries tr"
| "error_entries (_ # tr) = error_entries tr"

fun request_entries :: "trace \<Rightarrow> request_log_entry list" where
  "request_entries [] = []"
| "request_entries (AddRequestLog r # tr) = r # request_entries tr"
| "request_entries (_ # tr) = request_entries tr"

subsection \<open>Example surroundings\<close>

text \<open>
  A response of two embedding vectors, and a world whose clock advances by half a second
  during the call, whose float operations are exact, and whose remote side answers every
  request with the given outcome.
\<close>

definition example_response :: "rat list list" where
  "example_response = [1, 2] # [3, 4] # []"

definition example_world :: "exn + rat list list \<Rightarrow> rat list list world" where
  "example_world outcome =
     \<lparr>perf_counter_start = 1, perf_counter_end = 3 / 2, datetime_now = 0,
      BASE_URL = ''https://api.example/v1'',
      embeddings_create = (\<lambda>api_key base_url input_text model. outcome),
      fl = (\<lambda>x. x)\<rparr>"

section \<open>The paths through the call\<close>

lemma create_embedding_success:
  assumes "embeddings_create w api_key (BASE_URL w) input_text model = Inr response"
  shows "create_embedding w input_text model api_key tr =
    (Inr response,
     tr @ [AddRequestLog
            \<lparr>req_model_name = model, req_api_key = api_key, req_is_success = True,
             req_status_code = Some 200, req_latency_ms = latency_ms w,
             req_request_time = datetime_now w\<rparr>])"
  using assms
  by (simp add: Let_def create_embedding_def try_except_def finally_block_def add_request_log_def)

lemma create_embedding_api_status_error:
  assumes "embeddings_create w api_key (BASE_URL w) input_text model = Inl (APIStatusError sc msg)"
  shows "create_embedding w input_text model api_key tr =
    (Inl (APIStatusError sc msg),
     tr @ [LoggerError (''Error creating embedding (APIStatusError): OpenAI API error: '' @ msg),
           AddErrorLog
            \<lparr>err_gemini_key = api_key, err_model_name = model,
             err_error_type = ''openai-embedding'',
             err_error_log = ''OpenAI API error: '' @ msg,
             err_error_code = Some sc, err_request_msg = request_msg_log input_text\<rparr>,
           AddRequestLog
            \<lparr>req_model_name = model, req_api_key = api_key, req_is_success = False,
             req_status_code = Some sc, req_latency_ms = latency_ms w,
             req_request_time = datetime_now w\<rparr>])"
  using assms
  by (simp add: Let_def create_embedding_def try_except_def finally_block_def add_request_log_def
      add_error_log_def logger_error_def)

lemma create_embedding_other_exception:
  assumes "embeddings_create w api_key (BASE_URL w) input_text model
             = Inl (OtherException cls txt)"
  shows "create_embedding w input_text model api_key tr =
    (Inl (case parse_status_code txt of
            Inr sc \<Rightarrow> OtherException cls txt | Inl raised \<Rightarrow> raised),
     tr @ [LoggerError (''Error creating embedding (Exception): Generic error: '' @ txt),
           AddErrorLog
            \<lparr>err_gemini_key = api_key, err_model_name = model,
             err_error_type = ''openai-embedding'',
             err_error_log = ''Generic error: '' @ txt,
             err_error_code =
               (case parse_status_code txt of Inr sc \<Rightarrow> Some sc | Inl raised \<Rightarrow> None),
             err_request_msg = request_msg_log input_text\<rparr>,
           AddRequestLog
            \<lparr>req_model_name = model, req_api_key = api_key, req_is_success = False,
             req_status_code =
               (case parse_status_code txt of Inr sc \<Rightarrow> Some sc | Inl raised \<Rightarrow> None),
             req_latency_ms = latency_ms w, req_request_time = datetime_now w\<rparr>])"
  using assms
  by (simp add: Let_def create_embedding_def try_except_def finally_block_def add_request_log_def
      add_error_log_def logger_error_def split: sum.splits)

lemma create_embedding_non_exception:
  assumes "embeddings_create w api_key (BASE_URL w) input_text model = Inl (NonException txt)"
  shows "create_embedding w input_text model api_key tr =
    (Inl (NonException txt),
     tr @ [AddErrorLog
            \<lparr>err_gemini_key = api_key, err_model_name = model,
             err_error_type = ''openai-embedding'', err_error_log = '''',
             err_error_code = None, err_request_msg = request_msg_log input_text\<rparr>,
           AddRequestLog
            \<lparr>req_model_name = model, req_api_key = api_key, req_is_success = False,
             req_status_code = None, req_latency_ms = latency_ms w,
             req_request_time = datetime_now w\<rparr>])"
  using assms
  by (simp add: Let_def create_embedding_def try_except_def finally_block_def add_request_log_def
      add_error_log_def)

lemma remote_outcome_cases:
  obtains (Success) response
    where "embeddings_create w api_key (BASE_URL w) input_text model = Inr response"
  | (Status) sc msg
    where "embeddings_create w api_key (BASE_URL w) input_text model
             = Inl (APIStatusError sc msg)"
  | (Other) cls t
    where "embeddings_create w api_key (BASE_URL w) input_text model
             = Inl (OtherException cls t)"
  | (Non) t
    where "embeddings_create w api_key (BASE_URL w) input_text model = Inl (NonException t)"
proof (cases "embeddings_create w api_key (BASE_URL w) input_text model")
  case (Inl e)
  then show ?thesis using that by (cases e) simp_all
next
  case (Inr response)
  then show ?thesis using that by simp
qed

lemma logger_line_then_both_entries:
  "\<exists>pre err' req'.
      [LoggerError m, AddErrorLog err, AddRequestLog req]
        = pre @ [AddErrorLog err', AddRequestLog req']
    \<and> error_entries pre = [] \<and> request_entries pre = []"
  by (intro exI [of _ "[LoggerError m]"] exI) simp

section \<open>The leftmost match of the status code pattern\<close>

lemma match_here_prefix:
  assumes "match_here s = Some g"
  shows "\<exists>d r. is_digit d \<and> s = ''status code '' @ d # r"
proof -
  from assms have tk: "take 12 s = ''status code ''"
    and tw: "takeWhile is_digit (drop 12 s) \<noteq> []"
    by (simp_all add: match_here_def split: if_splits)
  from tw obtain d r where dr: "drop 12 s = d # r" and d: "is_digit d"
    by (cases "drop 12 s") (auto split: if_splits)
  have "s = take 12 s @ drop 12 s" by simp
  with tk dr have "s = ''status code '' @ d # r" by metis
  with d show ?thesis by blast
qed


lemma contains_status_pattern_Cons:
  "contains_status_pattern cs \<Longrightarrow> contains_status_pattern (c # cs)"
  unfolding contains_status_pattern_def by (auto simp: sublist_Cons_right)


lemma literal_no_digit: "c \<in> set ''status code '' \<Longrightarrow> \<not> is_digit c"
  by (auto simp: is_digit_def)

lemma nth_in_literal: "j < length lit \<Longrightarrow> (lit @ tail) ! j \<in> set lit"
  by (simp add: nth_append)

lemma match_here_at_pattern:
  assumes "ds \<noteq> []" and "\<forall>c \<in> set ds. is_digit c"
    and "rest = [] \<or> \<not> is_digit (hd rest)"
  shows "match_here (''status code '' @ ds @ rest) = Some ds"
proof -
  have "takeWhile is_digit rest = []"
    using assms(3) by (cases rest) auto
  with assms(2) have "takeWhile is_digit (ds @ rest) = ds"
    by (simp add: takeWhile_append2)
  with assms(1) show ?thesis
    by (simp add: match_here_def)
qed

lemma match_here_before_pattern:
  assumes "pre \<noteq> []" and "\<not> contains_status_pattern pre"
  shows "match_here (pre @ ''status code '' @ tail) = None"
proof (cases "match_here (pre @ ''status code '' @ tail)")
  case (Some g)
  from match_here_prefix [OF Some] obtain d r
    where d: "is_digit d" and eq: "pre @ ''status code '' @ tail = ''status code '' @ d # r"
    by blast
  have d12: "(pre @ ''status code '' @ tail) ! 12 = d"
    unfolding eq by simp
  show ?thesis
  proof (cases "length pre \<le> 12")
    case True
    let ?j = "12 - length pre"
    from assms(1) True have j: "?j < 12" by (cases pre) auto
    from True have "(pre @ ''status code '' @ tail) ! 12 = (''status code '' @ tail) ! ?j"
      by (simp add: nth_append)
    with d12 have "d = (''status code '' @ tail) ! ?j" by simp
    moreover from j have "(''status code '' @ tail) ! ?j \<in> set ''status code ''"
      by (intro nth_in_literal) simp
    ultimately have "\<not> is_digit d" using literal_no_digit by metis
    with d show ?thesis by simp
  next
    case False
    then have len: "13 \<le> length pre" by simp
    have "take 13 (pre @ ''status code '' @ tail) = ''status code '' @ [d]"
      unfolding eq by simp
    with len have "take 13 pre = ''status code '' @ [d]" by simp
    then have "pre = (''status code '' @ [d]) @ drop 13 pre"
      by (metis append_take_drop_id)
    then have "sublist (''status code '' @ [d]) pre"
      by (metis sublist_append_rightI)
    with d have "contains_status_pattern pre"
      unfolding contains_status_pattern_def is_digit_def by blast
    with assms(2) show ?thesis by simp
  qed
qed simp

lemma re_search_skips_prefix:
  "\<not> contains_status_pattern pre \<Longrightarrow>
   re_search (pre @ ''status code '' @ tail) = re_search (''status code '' @ tail)"
proof (induction pre)
  case Nil
  show ?case by simp
next
  case (Cons c pre)
  from Cons.prems have none: "match_here ((c # pre) @ ''status code '' @ tail) = None"
    by (intro match_here_before_pattern) simp_all
  from Cons.prems contains_status_pattern_Cons have "\<not> contains_status_pattern pre"
    by blast
  then have "re_search (pre @ ''status code '' @ tail) = re_search (''status code '' @ tail)"
    by (rule Cons.IH)
  moreover have "re_search ((c # pre) @ ''status code '' @ tail)
      = re_search (pre @ ''status code '' @ tail)"
    using none by simp
  ultimately show ?case by simp
qed

lemma re_search_leftmost:
  assumes "\<not> contains_status_pattern pre"
    and "ds \<noteq> []" and "\<forall>c \<in> set ds. is_digit c"
    and "rest = [] \<or> \<not> is_digit (hd rest)"
  shows "re_search (pre @ ''status code '' @ ds @ rest) = Some ds"
proof -
  have "re_search (''status code '' @ ds @ rest) = Some ds"
    using match_here_at_pattern [OF assms(2-4)] by simp
  with re_search_skips_prefix [OF assms(1), of "ds @ rest"]
  show ?thesis by simp
qed


lemma parse_status_code_too_long:
  assumes "\<not> contains_status_pattern pre"
    and "ds \<noteq> []" and "\<forall>c \<in> set ds. is_digit c"
    and "rest = [] \<or> \<not> is_digit (hd rest)"
    and "int_max_str_digits < length ds"
  shows "parse_status_code (pre @ ''status code '' @ ds @ rest)
    = Inl (OtherException ''ValueError'' (int_limit_message (length ds)))"
  using re_search_leftmost [OF assms(1-4)] assms(5)
  by (simp add: parse_status_code_def int_of_string_def)


section \<open>Logging on every path\<close>

text \<open>
  C1. Every call, whatever the remote side does, hands exactly one entry to
  \<^verbatim>\<open>add_request_log\<close>, and exactly one entry to \<^verbatim>\<open>add_error_log\<close> if and only if the call
  did not succeed (the caller receives an exception, which is the case exactly when the
  remote call raised); the \<^verbatim>\<open>finally\<close> block runs on every path.
\<close>

theorem logs_written_once:
  "\<exists>new. snd (create_embedding w input_text model api_key tr) = tr @ new
     \<and> length (request_entries new) = 1
     \<and> length (error_entries new)
         = (if isl (fst (create_embedding w input_text model api_key tr)) then 1 else 0)
     \<and> isl (fst (create_embedding w input_text model api_key tr))
         = isl (embeddings_create w api_key (BASE_URL w) input_text model)"
proof (cases "embeddings_create w api_key (BASE_URL w) input_text model")
  case (Inr response)
  show ?thesis
    unfolding create_embedding_success [OF Inr] by (simp add: Inr)
next
  case (Inl e)
  show ?thesis
  proof (cases e)
    case (APIStatusError sc msg)
    with Inl have r: "embeddings_create w api_key (BASE_URL w) input_text model
      = Inl (APIStatusError sc msg)" by simp
    show ?thesis
      unfolding create_embedding_api_status_error [OF r] by (simp add: r)
  next
    case (OtherException cls t)
    with Inl have r: "embeddings_create w api_key (BASE_URL w) input_text model
      = Inl (OtherException cls t)" by simp
    show ?thesis
      unfolding create_embedding_other_exception [OF r] by (simp add: r)
  next
    case (NonException t)
    with Inl have r: "embeddings_create w api_key (BASE_URL w) input_text model
      = Inl (NonException t)" by simp
    show ?thesis
      unfolding create_embedding_non_exception [OF r] by (simp add: r)
  qed
qed

theorem logs_written_once_witness:
  "\<exists>new. snd (create_embedding
                 (example_world (Inl (OtherException ''ConnectionError'' ''connection reset'')))
                 (Str ''hello'') ''text-embed-1'' ''k1'' []) = [] @ new
     \<and> length (request_entries new) = 1 \<and> length (error_entries new) = 1"
  using logs_written_once
    [of "example_world (Inl (OtherException ''ConnectionError'' ''connection reset''))"
      "Str ''hello''" "''text-embed-1''" "''k1''" "[]"]
  by (simp add: example_world_def)

text \<open>
  C2. When the remote call succeeds, the caller receives its response unmodified, exactly
  one request entry is written, with \<^verbatim>\<open>is_success=True\<close> and \<^verbatim>\<open>status_code=200\<close>, and no
  error entry is written.
\<close>

theorem success_returns_result:
  assumes "embeddings_create w api_key (BASE_URL w) input_text model = Inr response"
  shows "\<exists>new req. create_embedding w input_text model api_key tr = (Inr response, tr @ new)
     \<and> request_entries new = [req] \<and> req_is_success req \<and> req_status_code req = Some 200
     \<and> error_entries new = []"
  unfolding create_embedding_success [OF assms] by simp

theorem success_returns_result_witness:
  "\<exists>new req. create_embedding (example_world (Inr example_response)) (StrList [''a'', ''b''])
        ''text-embed-1'' ''k1'' [] = (Inr example_response, [] @ new)
     \<and> request_entries new = [req] \<and> req_is_success req \<and> req_status_code req = Some 200
     \<and> error_entries new = []"
  by (rule success_returns_result) (simp add: example_world_def)

text \<open>
  C3. When the remote call raises an \<^verbatim>\<open>APIStatusError\<close> with status code \<open>S\<close> and message
  \<open>M\<close>, the caller receives that error with \<open>S\<close> and \<open>M\<close>, exactly one error entry is
  written, with status code \<open>S\<close> and an error text that contains \<open>M\<close>, and exactly one
  request entry is written, with \<^verbatim>\<open>is_success=False\<close> and status code \<open>S\<close>.
\<close>

theorem api_status_error_logged:
  assumes "embeddings_create w api_key (BASE_URL w) input_text model
             = Inl (APIStatusError S M)"
  shows "\<exists>new err req.
       create_embedding w input_text model api_key tr = (Inl (APIStatusError S M), tr @ new)
     \<and> error_entries new = [err] \<and> err_error_code err = Some S
     \<and> sublist M (err_error_log err)
     \<and> request_entries new = [req] \<and> \<not> req_is_success req \<and> req_status_code req = Some S"
proof -
  have "sublist M (''OpenAI API error: '' @ M)"
    by (rule sublist_append_leftI)
  then show ?thesis
    unfolding create_embedding_api_status_error [OF assms] by simp
qed

theorem api_status_error_logged_witness:
  "\<exists>new err req.
       create_embedding (example_world (Inl (APIStatusError 429 ''rate limited'')))
         (Str ''hello'') ''text-embed-1'' ''k1'' []
         = (Inl (APIStatusError 429 ''rate limited''), [] @ new)
     \<and> error_entries new = [err] \<and> err_error_code err = Some 429
     \<and> sublist ''rate limited'' (err_error_log err)
     \<and> request_entries new = [req] \<and> \<not> req_is_success req
     \<and> req_status_code req = Some 429"
  by (rule api_status_error_logged) (simp add: example_world_def)

text \<open>
  C4 says that the caller of a failing call receives exactly the failure that the remote
  side produced. When the remote call raises \<^verbatim>\<open>Exception('status code ' + '0' * 4301)\<close>, the
  handler's \<^verbatim>\<open>int(match.group(1))\<close> raises \<^verbatim>\<open>ValueError\<close> before \<^verbatim>\<open>raise e\<close> is reached: the
  caller receives that \<^verbatim>\<open>ValueError\<close> in place of the original exception, and the error entry
  and the request entry are written without a status code.
\<close>

theorem generic_failure_replaced_by_value_error:
  "fst (create_embedding
          (example_world
             (Inl (OtherException ''Exception'' (''status code '' @ replicate 4301 CHR ''0''))))
          (Str ''hello'') ''text-embed-1'' ''k1'' [])
     = Inl (OtherException ''ValueError'' (int_limit_message 4301))
   \<and> map err_error_code (error_entries (snd (create_embedding
          (example_world
             (Inl (OtherException ''Exception'' (''status code '' @ replicate 4301 CHR ''0''))))
          (Str ''hello'') ''text-embed-1'' ''k1'' []))) = [None]
   \<and> map req_status_code (request_entries (snd (create_embedding
          (example_world
             (Inl (OtherException ''Exception'' (''status code '' @ replicate 4301 CHR ''0''))))
          (Str ''hello'') ''text-embed-1'' ''k1'' []))) = [None]"
proof -
  let ?big = "''status code '' @ replicate 4301 CHR ''0''"
  let ?w = "example_world (Inl (OtherException ''Exception'' ?big)) :: rat list list world"
  have "\<not> contains_status_pattern []"
    by (simp add: contains_status_pattern_def)
  moreover have "replicate 4301 CHR ''0'' \<noteq> []" by simp
  moreover have "\<forall>c \<in> set (replicate 4301 CHR ''0''). is_digit c"
    by (simp add: is_digit_def)
  moreover have "int_max_str_digits < length (replicate 4301 CHR ''0'')"
    by (simp add: int_max_str_digits_def)
  ultimately have "parse_status_code ([] @ ''status code '' @ replicate 4301 CHR ''0'' @ [])
      = Inl (OtherException ''ValueError''
               (int_limit_message (length (replicate 4301 CHR ''0''))))"
    by (intro parse_status_code_too_long) simp_all
  then have parse: "parse_status_code ?big
      = Inl (OtherException ''ValueError'' (int_limit_message 4301))"
    by simp
  have "embeddings_create ?w ''k1'' (BASE_URL ?w) (Str ''hello'') ''text-embed-1''
      = Inl (OtherException ''Exception'' ?big)"
    by (simp add: example_world_def)
  from create_embedding_other_exception [OF this, of "[]"] parse
  show ?thesis by simp
qed

section \<open>The status code of a generic error\<close>




section \<open>The input preview\<close>

text \<open>
  C6. The preview of a list holds its first five elements (all of them when there are
  fewer), each one cut to 100 characters with \<^verbatim>\<open>"..."\<close> appended when it is longer than
  100, and one more element \<^verbatim>\<open>"..."\<close> at the end exactly when the list has more than five
  elements. The preview of a single string is the string itself when it has at most 1000
  characters, and otherwise its first 1000 characters followed by \<^verbatim>\<open>"..."\<close>.
\<close>

theorem preview_truncation:
  "(\<exists>p. request_msg_log (StrList xs) = [(''input_truncated'', PList p)]
      \<and> length p = min 5 (length xs) + (if length xs > 5 then 1 else 0)
      \<and> (\<forall>i < min 5 (length xs).
            p ! i = (if length (xs ! i) > 100 then take 100 (xs ! i) @ ''...'' else xs ! i))
      \<and> (length xs > 5 \<longrightarrow> p ! 5 = ''...''))
   \<and> request_msg_log (Str s)
       = [(''input_truncated'', PStr (if length s \<le> 1000 then s else take 1000 s @ ''...''))]"
proof -
  let ?cut = "\<lambda>item::string. if length item > 100 then take 100 item @ ''...'' else item"
  let ?p = "map ?cut (take 5 xs) @ (if length xs > 5 then [''...''] else [])"
  have eq: "request_msg_log (StrList xs) = [(''input_truncated'', PList ?p)]"
    by (simp add: request_msg_log_def)
  have len: "length ?p = min 5 (length xs) + (if length xs > 5 then 1 else 0)"
    by simp
  have items: "\<forall>i < min 5 (length xs). ?p ! i = ?cut (xs ! i)"
    by (simp add: nth_append)
  have marker: "length xs > 5 \<longrightarrow> ?p ! 5 = ''...''"
    by (simp add: nth_append)
  have single: "request_msg_log (Str s)
       = [(''input_truncated'', PStr (if length s \<le> 1000 then s else take 1000 s @ ''...''))]"
    by (simp add: request_msg_log_def)
  from eq len items marker single show ?thesis by blast
qed

theorem preview_truncation_witness:
  "(\<exists>p. request_msg_log
           (StrList [''a'', replicate 101 CHR ''b'', ''c'', ''d'', ''e'', ''f'', ''g''])
         = [(''input_truncated'', PList p)]
      \<and> length p = 6
      \<and> p ! 0 = ''a''
      \<and> p ! 1 = replicate 100 CHR ''b'' @ ''...''
      \<and> p ! 5 = ''...'')
   \<and> request_msg_log (Str (replicate 1200 CHR ''x''))
       = [(''input_truncated'', PStr (replicate 1000 CHR ''x'' @ ''...''))]"
proof -
  let ?xs = "[''a'', replicate 101 CHR ''b'', ''c'', ''d'', ''e'', ''f'', ''g'']"
  from preview_truncation [of ?xs "replicate 1200 CHR ''x''"]
  obtain p where p: "request_msg_log (StrList ?xs) = [(''input_truncated'', PList p)]"
      "length p = min 5 (length ?xs) + (if length ?xs > 5 then 1 else 0)"
      "\<forall>i < min 5 (length ?xs).
            p ! i = (if length (?xs ! i) > 100 then take 100 (?xs ! i) @ ''...'' else ?xs ! i)"
      "length ?xs > 5 \<longrightarrow> p ! 5 = ''...''"
    and s: "request_msg_log (Str (replicate 1200 CHR ''x''))
       = [(''input_truncated'', PStr (if length (replicate 1200 CHR ''x'') \<le> 1000
            then replicate 1200 CHR ''x'' else take 1000 (replicate 1200 CHR ''x'') @ ''...''))]"
    by blast
  have l: "length p = 6" using p(2) by simp
  have "0 < min 5 (length ?xs)" "1 < min 5 (length ?xs)" by simp_all
  with p(3) have p0: "p ! 0 = ''a''" and p1: "p ! 1 = replicate 100 CHR ''b'' @ ''...''"
    by auto
  have p5: "p ! 5 = ''...''" using p(4) by simp
  have s': "request_msg_log (Str (replicate 1200 CHR ''x''))
       = [(''input_truncated'', PStr (replicate 1000 CHR ''x'' @ ''...''))]"
    using s by simp
  from p(1) l p0 p1 p5 s' show ?thesis by blast
qed

section \<open>Order of the writes\<close>

text \<open>
  C7. On a failing call the entry for \<^verbatim>\<open>add_error_log\<close> is written immediately before the
  entry for \<^verbatim>\<open>add_request_log\<close>, nothing else reaches the two database functions, and the
  exception that leaves the call reaches the caller with both writes already in the trace.
  On success the response reaches the caller with the request entry already in the trace.
\<close>

theorem error_log_before_request_log:
  "(embeddings_create w api_key (BASE_URL w) input_text model = Inl e \<longrightarrow>
      (\<exists>e' pre err req.
          create_embedding w input_text model api_key tr
            = (Inl e', tr @ pre @ [AddErrorLog err, AddRequestLog req])
        \<and> error_entries pre = [] \<and> request_entries pre = []))
   \<and> (embeddings_create w api_key (BASE_URL w) input_text model = Inr response \<longrightarrow>
      (\<exists>req. create_embedding w input_text model api_key tr
            = (Inr response, tr @ [AddRequestLog req])))"
proof (cases rule: remote_outcome_cases [of w api_key input_text model])
  case (Success r)
  show ?thesis
    unfolding create_embedding_success [OF Success] by (simp add: Success)
next
  case (Status sc msg)
  show ?thesis
    unfolding create_embedding_api_status_error [OF Status]
    using logger_line_then_both_entries by (simp add: Status)
next
  case (Other cls t)
  show ?thesis
    unfolding create_embedding_other_exception [OF Other]
    using logger_line_then_both_entries by (simp add: Other)
next
  case (Non t)
  show ?thesis
    unfolding create_embedding_non_exception [OF Non]
    by (simp add: Non)
qed

theorem error_log_before_request_log_witness:
  "(\<exists>e' pre err req.
      create_embedding (example_world (Inl (APIStatusError 429 ''rate limited'')))
        (Str ''hello'') ''text-embed-1'' ''k1'' []
        = (Inl e', [] @ pre @ [AddErrorLog err, AddRequestLog req])
    \<and> error_entries pre = [] \<and> request_entries pre = [])
   \<and> (\<exists>req. create_embedding (example_world (Inr example_response)) (StrList [''a'', ''b''])
        ''text-embed-1'' ''k1'' [] = (Inr example_response, [] @ [AddRequestLog req]))"
proof -
  let ?w = "example_world (Inl (APIStatusError 429 ''rate limited''))"
  let ?v = "example_world (Inr example_response)"
  have "embeddings_create ?w ''k1'' (BASE_URL ?w) (Str ''hello'') ''text-embed-1''
      = Inl (APIStatusError 429 ''rate limited'')"
    by (simp add: example_world_def)
  with error_log_before_request_log
    [where w = ?w and api_key = "''k1''" and input_text = "Str ''hello''"
       and model = "''text-embed-1''" and e = "APIStatusError 429 ''rate limited''"
       and tr = "[]"]
  have failing: "\<exists>e' pre err req.
      create_embedding ?w (Str ''hello'') ''text-embed-1'' ''k1'' []
        = (Inl e', [] @ pre @ [AddErrorLog err, AddRequestLog req])
    \<and> error_entries pre = [] \<and> request_entries pre = []"
    by blast
  have "embeddings_create ?v ''k1'' (BASE_URL ?v) (StrList [''a'', ''b'']) ''text-embed-1''
      = Inr example_response"
    by (simp add: example_world_def)
  with error_log_before_request_log
    [where w = ?v and api_key = "''k1''" and input_text = "StrList [''a'', ''b'']"
       and model = "''text-embed-1''" and response = "example_response" and tr = "[]"]
  have "\<exists>req. create_embedding ?v (StrList [''a'', ''b'']) ''text-embed-1'' ''k1'' []
      = (Inr example_response, [] @ [AddRequestLog req])"
    by blast
  with failing show ?thesis by blast
qed

section \<open>The credential in the log entries\<close>

text \<open>
  C8 says that no entry handed to the database functions holds the complete credential.
  On the call below, with the key \<^verbatim>\<open>sk-secret-0001\<close>, the request entry and the error entry
  both hold exactly that key.
\<close>

theorem credential_in_log_entries_counterexample:
  "map req_api_key (request_entries (snd (create_embedding
       (example_world (Inl (APIStatusError 429 ''rate limited'')))
       (Str ''hello'') ''text-embed-1'' ''sk-secret-0001'' []))) = [''sk-secret-0001'']
   \<and> map err_gemini_key (error_entries (snd (create_embedding
       (example_world (Inl (APIStatusError 429 ''rate limited'')))
       (Str ''hello'') ''text-embed-1'' ''sk-secret-0001'' []))) = [''sk-secret-0001'']"
proof -
  have "embeddings_create (example_world (Inl (APIStatusError 429 ''rate limited'')))
      ''sk-secret-0001''
      (BASE_URL (example_world (Inl (APIStatusError 429 ''rate limited''))))
      (Str ''hello'') ''text-embed-1'' = Inl (APIStatusError 429 ''rate limited'')"
    by (simp add: example_world_def)
  from create_embedding_api_status_error [OF this, of "[]"] show ?thesis by simp
qed

text \<open>
  C8, as the code has it: on every call \<^verbatim>\<open>api_key\<close> is handed over in full, as the
  \<^verbatim>\<open>api_key\<close> of the request entry and as the \<^verbatim>\<open>gemini_key\<close> of the error entry when one is
  written.
\<close>

theorem credential_handed_to_sinks:
  "\<exists>new. snd (create_embedding w input_text model api_key tr) = tr @ new
     \<and> request_entries new \<noteq> []
     \<and> (\<forall>r \<in> set (request_entries new). req_api_key r = api_key)
     \<and> (\<forall>e \<in> set (error_entries new). err_gemini_key e = api_key)"
proof (cases rule: remote_outcome_cases [of w api_key input_text model])
  case (Success r)
  show ?thesis unfolding create_embedding_success [OF Success] by simp
next
  case (Status sc msg)
  show ?thesis unfolding create_embedding_api_status_error [OF Status] by simp
next
  case (Other cls t)
  show ?thesis unfolding create_embedding_other_exception [OF Other] by simp
next
  case (Non t)
  show ?thesis unfolding create_embedding_non_exception [OF Non] by simp
qed

theorem credential_handed_to_sinks_witness:
  "\<exists>new. snd (create_embedding (example_world (Inl (NonException '''')))
                 (Str ''hello'') ''text-embed-1'' ''sk-secret-0001'' []) = [] @ new
     \<and> request_entries new \<noteq> [] \<and> error_entries new \<noteq> []
     \<and> (\<forall>r \<in> set (request_entries new). req_api_key r = ''sk-secret-0001'')
     \<and> (\<forall>e \<in> set (error_entries new). err_gemini_key e = ''sk-secret-0001'')"
proof -
  let ?w = "example_world (Inl (NonException '''')) :: rat list list world"
  have "embeddings_create ?w ''sk-secret-0001'' (BASE_URL ?w) (Str ''hello'') ''text-embed-1''
      = Inl (NonException '''')"
    by (simp add: example_world_def)
  from create_embedding_non_exception [OF this, of "[]"]
  have ev: "error_entries (snd (create_embedding ?w (Str ''hello'') ''text-embed-1''
      ''sk-secret-0001'' [])) \<noteq> []"
    by simp
  from credential_handed_to_sinks [of ?w "Str ''hello''" "''text-embed-1''"
      "''sk-secret-0001''" "[]"]
  obtain new where new:
    "snd (create_embedding ?w (Str ''hello'') ''text-embed-1'' ''sk-secret-0001'' [])
       = [] @ new"
    "request_entries new \<noteq> []"
    "\<forall>r \<in> set (request_entries new). req_api_key r = ''sk-secret-0001''"
    "\<forall>e \<in> set (error_entries new). err_gemini_key e = ''sk-secret-0001''"
    by blast
  from ev new(1) have "error_entries new \<noteq> []" by simp
  with new show ?thesis by blast
qed

section \<open>Latency\<close>

text \<open>
  C9. With a monotonic clock (the second reading of \<^verbatim>\<open>perf_counter\<close> is not below the
  first) the latency of the request entry is a non-negative integer on every path: the
  whole milliseconds of the elapsed time as the float operations compute it. The rounding
  of float operations is any monotone function that keeps zero, which round-to-nearest is.
\<close>

theorem latency_non_negative:
  assumes "perf_counter_start w \<le> perf_counter_end w"
    and "mono (fl w)" and "fl w 0 = 0"
  shows "\<exists>new req. snd (create_embedding w input_text model api_key tr) = tr @ new
     \<and> request_entries new = [req]
     \<and> 0 \<le> req_latency_ms req
     \<and> req_latency_ms req
         = \<lfloor>fl w (fl w (perf_counter_end w - perf_counter_start w) * 1000)\<rfloor>"
proof -
  have "0 \<le> perf_counter_end w - perf_counter_start w"
    using assms(1) by simp
  with assms(2) have "fl w 0 \<le> fl w (perf_counter_end w - perf_counter_start w)"
    by (rule monoD)
  with assms(3) have "0 \<le> fl w (perf_counter_end w - perf_counter_start w) * 1000"
    by simp
  with assms(2) have "fl w 0 \<le> fl w (fl w (perf_counter_end w - perf_counter_start w) * 1000)"
    by (rule monoD)
  with assms(3) have nn: "0 \<le> fl w (fl w (perf_counter_end w - perf_counter_start w) * 1000)"
    by simp
  then have lat: "latency_ms w
      = \<lfloor>fl w (fl w (perf_counter_end w - perf_counter_start w) * 1000)\<rfloor>"
    and pos: "0 \<le> latency_ms w"
    by (simp_all add: latency_ms_def int_of_float_def)
  show ?thesis
  proof (cases rule: remote_outcome_cases [of w api_key input_text model])
    case (Success r)
    show ?thesis
      unfolding create_embedding_success [OF Success] using lat pos by simp
  next
    case (Status sc msg)
    show ?thesis
      unfolding create_embedding_api_status_error [OF Status] using lat pos by simp
  next
    case (Other cls t)
    show ?thesis
      unfolding create_embedding_other_exception [OF Other] using lat pos by simp
  next
    case (Non t)
    show ?thesis
      unfolding create_embedding_non_exception [OF Non] using lat pos by simp
  qed
qed

theorem latency_non_negative_witness:
  "\<exists>new req. snd (create_embedding (example_world (Inr example_response)) (StrList [''a'', ''b''])
                     ''text-embed-1'' ''k1'' []) = [] @ new
     \<and> request_entries new = [req] \<and> 0 \<le> req_latency_ms req \<and> req_latency_ms req = 500"
proof -
  let ?w = "example_world (Inr example_response)"
  have "perf_counter_start ?w \<le> perf_counter_end ?w" "mono (fl ?w)" "fl ?w 0 = 0"
    by (simp_all add: example_world_def mono_def)
  from latency_non_negative [OF this, of "StrList [''a'', ''b'']" "''text-embed-1''" "''k1''" "[]"]
  show ?thesis by (simp add: example_world_def)
qed

section \<open>Exceptions outside \<^verbatim>\<open>Exception\<close>\<close>

text \<open>
  C10. When the remote call raises an exception that is not an instance of \<^verbatim>\<open>Exception\<close>,
  no handler runs: an error entry with an empty error text and no status code, then a
  request entry with \<^verbatim>\<open>is_success=False\<close> and no status code, are written, and the same
  exception reaches the caller.
\<close>

theorem non_exception_logged:
  assumes "embeddings_create w api_key (BASE_URL w) input_text model = Inl (NonException t)"
  shows "\<exists>err req.
      create_embedding w input_text model api_key tr
        = (Inl (NonException t), tr @ [AddErrorLog err, AddRequestLog req])
    \<and> err_error_log err = '''' \<and> err_error_code err = None
    \<and> \<not> req_is_success req \<and> req_status_code req = None"
  unfolding create_embedding_non_exception [OF assms] by simp

theorem non_exception_logged_witness:
  "\<exists>err req.
      create_embedding (example_world (Inl (NonException ''''))) (Str ''hello'')
        ''text-embed-1'' ''k1'' []
        = (Inl (NonException ''''), [] @ [AddErrorLog err, AddRequestLog req])
    \<and> err_error_log err = '''' \<and> err_error_code err = None
    \<and> \<not> req_is_success req \<and> req_status_code req = None"
  by (rule non_exception_logged) (simp add: example_world_def)

end
